theory Spec2Isabelle
  imports Main "HOL-Library.Word"
begin

section \<open>Basic types (base/basic\_types.h)\<close>

text \<open>
  The typedefs of \<^verbatim>\<open>base/basic_types.h\<close> (the one among the sources is that of the
  branch \<^verbatim>\<open>complexity\<close>). Addresses (\<^verbatim>\<open>unsigned long\<close>, on an LP64
  platform) and values (\<^verbatim>\<open>long long\<close>) are 64-bit words. Statement, branch and function identifiers, type
  tags and operator codes are C integers that the runtime only compares and passes on;
  they are integers here.
\<close>

type_synonym id_t = int
type_synonym branch_id_t = int
type_synonym function_id_t = int
type_synonym value_t = "64 word"
type_synonym addr_t = "64 word"
type_synonym size_t = "64 word"

text \<open>
  \<^verbatim>\<open>enum type_t\<close> of namespace \<^verbatim>\<open>types\<close>: an unscoped enumeration, that is an integer
  with named values (one constant \<open>types_X\<close> for each \<^verbatim>\<open>types::X\<close>), so that \<^verbatim>\<open>static_cast<type_t>(ty)\<close> leaves the tag as it is.
\<close>

type_synonym type_t = int

definition types_BOOLEAN :: type_t where "types_BOOLEAN = -1"
definition types_U_CHAR :: type_t where "types_U_CHAR = 0"
definition types_CHAR :: type_t where "types_CHAR = 1"
definition types_U_SHORT :: type_t where "types_U_SHORT = 2"
definition types_SHORT :: type_t where "types_SHORT = 3"
definition types_U_INT :: type_t where "types_U_INT = 4"
definition types_INT :: type_t where "types_INT = 5"
definition types_U_LONG :: type_t where "types_U_LONG = 6"
definition types_LONG :: type_t where "types_LONG = 7"
definition types_U_LONG_LONG :: type_t where "types_U_LONG_LONG = 8"
definition types_LONG_LONG :: type_t where "types_LONG_LONG = 9"
definition types_STRUCT :: type_t where "types_STRUCT = 10"

section \<open>The operator table of the instrumentation runtime\<close>

text \<open>
  The entries of \<^verbatim>\<open>kOpTable\<close> are written as qualified names \<^verbatim>\<open>ops::ADD\<close>,
  \<^verbatim>\<open>ops::UNSIGNED_CAST\<close>, ... The table stores them as \<^verbatim>\<open>int\<close>; the integer behind a
  name is fixed by the enumeration that declares it, in the \<^verbatim>\<open>base/basic_types.h\<close> that
  the runtime is compiled with, which is not among the sources. The entries are
  therefore kept as names, one constructor \<open>ops_X\<close> for each name \<^verbatim>\<open>ops::X\<close> the table
  mentions: two different names need not stand for two different integers.
\<close>

datatype ops =
    ops_ADD | ops_SUBTRACT | ops_MULTIPLY
  | ops_DIV | ops_S_DIV | ops_MOD | ops_S_MOD
  | ops_SHIFT_L | ops_SHIFT_R | ops_S_SHIFT_R
  | ops_BITWISE_AND | ops_BITWISE_OR | ops_BITWISE_XOR
  | ops_EQ | ops_NEQ
  | ops_GT | ops_S_GT | ops_LE | ops_S_LE
  | ops_LT | ops_S_LT | ops_GE | ops_S_GE
  | ops_CONCRETE
  | ops_NEGATE | ops_BITWISE_NOT | ops_LOGICAL_NOT | ops_UNSIGNED_CAST | ops_SIGNED_CAST
  | ops_ADD_PI | ops_SUBTRACT_PI | ops_SUBTRACT_PP

definition kOpTable :: "ops list" where
  "kOpTable =
    [ \<comment> \<open>binary arithmetic\<close>
      ops_ADD, ops_SUBTRACT, ops_MULTIPLY,
      ops_DIV, ops_S_DIV, ops_MOD, ops_S_MOD,
      \<comment> \<open>binary bitwise operators\<close>
      ops_SHIFT_L, ops_SHIFT_R, ops_S_SHIFT_R,
      ops_BITWISE_AND, ops_BITWISE_OR, ops_BITWISE_XOR,
      \<comment> \<open>binary comparison\<close>
      ops_EQ, ops_NEQ,
      ops_GT, ops_S_GT, ops_LE, ops_S_LE,
      ops_LT, ops_S_LT, ops_GE, ops_S_GE,
      \<comment> \<open>unhandled binary operators\<close>
      ops_CONCRETE,
      \<comment> \<open>unary operators\<close>
      ops_NEGATE, ops_BITWISE_NOT, ops_LOGICAL_NOT, ops_UNSIGNED_CAST, ops_SIGNED_CAST,
      \<comment> \<open>pointer operators\<close>
      ops_ADD_PI, ops_SUBTRACT_PI, ops_SUBTRACT_PP ]"

text \<open>
  \<^verbatim>\<open>kOpTable[op]\<close>: a read outside the 32 entries is undefined behaviour in C++ and has
  no value here.
\<close>

definition kOpTable_at :: "int \<Rightarrow> ops option" where
  "kOpTable_at op =
    (if 0 \<le> op \<and> op < int (length kOpTable) then Some (kOpTable ! nat op) else None)"

section \<open>The interpreter as the runtime sees it\<close>

text \<open>
  How a run of the instrumented program ends early: an \<^verbatim>\<open>assert\<close> of the runtime fails
  (the runtime is built with assertions on: its exit hook is registered inside one), the
  operator table is read outside its bounds, or the interpreter stops the process.
\<close>

datatype fatal = AssertionFailed | OutOfBounds | InvariantFailure

text \<open>
  The runtime holds one \<^verbatim>\<open>SymbolicInterpreter* SI\<close> and drives it through these member
  calls, one constructor for each call that the runtime's source makes, with the
  arguments it passes.
\<close>

datatype si_call =
    Alloc id_t addr_t size_t
  | Load id_t addr_t type_t value_t
  | Deref id_t addr_t type_t value_t
  | Store id_t addr_t
  | Write id_t addr_t
  | ClearStack id_t
  | ApplyUnaryOp id_t ops type_t value_t
  | ApplyCompareOp id_t ops type_t value_t
  | ApplyBinaryOp id_t ops type_t value_t
  | ApplyBinPtrOp id_t ops size_t value_t
  | Branch id_t branch_id_t bool
  | Call id_t function_id_t
  | Return id_t
  | HandleReturn id_t type_t value_t
  | NewInput type_t addr_t

text \<open>
  The class \<^verbatim>\<open>SymbolicInterpreter\<close> is declared in \<^verbatim>\<open>base/symbolic_interpreter.h\<close>, which
  the runtime includes. The runtime is modelled for any interpreter: a type \<open>'si\<close> of
  interpreter states and a function \<open>step\<close> that performs one member call on a state
  and either stops the process or returns the next state.
\<close>

type_synonym 'si interpreter = "si_call \<Rightarrow> 'si \<Rightarrow> fatal + 'si"

text \<open>
  The two globals of the runtime: \<^verbatim>\<open>static SymbolicInterpreter* SI\<close> (the state of the
  object it points to) and \<^verbatim>\<open>static int pre_symbolic\<close>.
\<close>

record 'si crest =
  SI :: 'si
  pre_symbolic :: int

text \<open>\<^verbatim>\<open>SI->call(...)\<close>: the call runs on the interpreter; a stop of the process propagates.\<close>

definition call_SI :: "'si interpreter \<Rightarrow> si_call \<Rightarrow> 'si crest \<Rightarrow> fatal + 'si crest" where
  "call_SI step c g = (case step c (SI g) of Inl e \<Rightarrow> Inl e | Inr s \<Rightarrow> Inr (g\<lparr>SI := s\<rparr>))"

text \<open>
  The operator codes \<^verbatim>\<open>__CREST_ADD\<close>, ... that the runtime compares \<^verbatim>\<open>op\<close> with are
  macros of \<^verbatim>\<open>libcrest/crest.h\<close>; their values are parameters of the model.
\<close>

record crest_h =
  CREST_ADD :: int
  CREST_CONCRETE :: int
  CREST_EQ :: int
  CREST_S_GEQ :: int
  CREST_NEGATE :: int
  CREST_SIGNED_CAST :: int

section \<open>The instrumentation runtime\<close>

text \<open>
  \<^verbatim>\<open>__CrestInit\<close>: reads the file \<^verbatim>\<open>input\<close> (here the values \<open>input\<close> read from it),
  constructs the interpreter from them (\<open>new_SI\<close>, the constructor), sets
  \<^verbatim>\<open>pre_symbolic = 1\<close> and registers the exit hook inside an \<^verbatim>\<open>assert\<close> (\<open>atexit_ok\<close>:
  whether \<^verbatim>\<open>atexit\<close> returns 0).
\<close>

definition CrestInit :: "(value_t list \<Rightarrow> 'si) \<Rightarrow> value_t list \<Rightarrow> bool \<Rightarrow> fatal + 'si crest" where
  "CrestInit new_SI input atexit_ok =
    (let g = \<lparr>SI = new_SI input, pre_symbolic = 1\<rparr>
     in if atexit_ok then Inr g else Inl AssertionFailed)"

definition CrestRegGlobal :: "'si interpreter \<Rightarrow> id_t \<Rightarrow> addr_t \<Rightarrow> size_t \<Rightarrow> 'si crest \<Rightarrow> fatal + 'si crest" where
  "CrestRegGlobal step i addr n g = call_SI step (Alloc i addr n) g"

definition CrestLoad :: "'si interpreter \<Rightarrow> id_t \<Rightarrow> addr_t \<Rightarrow> type_t \<Rightarrow> value_t \<Rightarrow> 'si crest \<Rightarrow> fatal + 'si crest" where
  "CrestLoad step i addr ty val g =
    (if pre_symbolic g = 0 then call_SI step (Load i addr ty val) g else Inr g)"

definition CrestDeref :: "'si interpreter \<Rightarrow> id_t \<Rightarrow> addr_t \<Rightarrow> type_t \<Rightarrow> value_t \<Rightarrow> 'si crest \<Rightarrow> fatal + 'si crest" where
  "CrestDeref step i addr ty val g =
    (if pre_symbolic g = 0 then call_SI step (Deref i addr ty val) g else Inr g)"

definition CrestStore :: "'si interpreter \<Rightarrow> id_t \<Rightarrow> addr_t \<Rightarrow> 'si crest \<Rightarrow> fatal + 'si crest" where
  "CrestStore step i addr g =
    (if pre_symbolic g = 0 then call_SI step (Store i addr) g else Inr g)"

definition CrestWrite :: "'si interpreter \<Rightarrow> id_t \<Rightarrow> addr_t \<Rightarrow> 'si crest \<Rightarrow> fatal + 'si crest" where
  "CrestWrite step i addr g =
    (if pre_symbolic g = 0 then call_SI step (Write i addr) g else Inr g)"

definition CrestClearStack :: "'si interpreter \<Rightarrow> id_t \<Rightarrow> 'si crest \<Rightarrow> fatal + 'si crest" where
  "CrestClearStack step i g =
    (if pre_symbolic g = 0 then call_SI step (ClearStack i) g else Inr g)"

text \<open>
  \<^verbatim>\<open>__CrestApply1\<close> and \<^verbatim>\<open>__CrestApply2\<close> assert the range of \<^verbatim>\<open>op\<close> first, in either
  regime; \<^verbatim>\<open>static_cast<unary_op_t>(kOpTable[op])\<close> passes the table's entry on.
\<close>

definition CrestApply1 :: "crest_h \<Rightarrow> 'si interpreter \<Rightarrow> id_t \<Rightarrow> int \<Rightarrow> type_t \<Rightarrow> value_t \<Rightarrow> 'si crest \<Rightarrow> fatal + 'si crest" where
  "CrestApply1 h step i op ty val g =
    (if \<not> (CREST_NEGATE h \<le> op \<and> op \<le> CREST_SIGNED_CAST h) then Inl AssertionFailed
     else if pre_symbolic g = 0 then
       (case kOpTable_at op of
          None \<Rightarrow> Inl OutOfBounds
        | Some uop \<Rightarrow> call_SI step (ApplyUnaryOp i uop ty val) g)
     else Inr g)"

definition CrestApply2 :: "crest_h \<Rightarrow> 'si interpreter \<Rightarrow> id_t \<Rightarrow> int \<Rightarrow> type_t \<Rightarrow> value_t \<Rightarrow> 'si crest \<Rightarrow> fatal + 'si crest" where
  "CrestApply2 h step i op ty val g =
    (if \<not> (CREST_ADD h \<le> op \<and> op \<le> CREST_CONCRETE h) then Inl AssertionFailed
     else if pre_symbolic g \<noteq> 0 then Inr g
     else if CREST_EQ h \<le> op \<and> op \<le> CREST_S_GEQ h then
       (case kOpTable_at op of
          None \<Rightarrow> Inl OutOfBounds
        | Some cop \<Rightarrow> call_SI step (ApplyCompareOp i cop ty val) g)
     else
       (case kOpTable_at op of
          None \<Rightarrow> Inl OutOfBounds
        | Some bop \<Rightarrow> call_SI step (ApplyBinaryOp i bop ty val) g))"

definition CrestPtrApply2 :: "'si interpreter \<Rightarrow> id_t \<Rightarrow> int \<Rightarrow> size_t \<Rightarrow> value_t \<Rightarrow> 'si crest \<Rightarrow> fatal + 'si crest" where
  "CrestPtrApply2 step i op n val g =
    (if pre_symbolic g \<noteq> 0 then Inr g
     else
       (case kOpTable_at op of
          None \<Rightarrow> Inl OutOfBounds
        | Some pop \<Rightarrow> call_SI step (ApplyBinPtrOp i pop n val) g))"

text \<open>
  \<^verbatim>\<open>__CrestBranch\<close>: in the pre-symbolic regime the branch is preceded by a fake
  (concrete) load of \<^verbatim>\<open>b\<close>, of type \<^verbatim>\<open>types::CHAR\<close> at address 0. The argument \<^verbatim>\<open>b\<close> is
  taken at the width of \<^verbatim>\<open>value_t\<close>, which the call of \<^verbatim>\<open>Load\<close> converts it to;
  \<^verbatim>\<open>static_cast<bool>(b)\<close> is \<open>b \<noteq> 0\<close>.
\<close>

definition CrestBranch :: "'si interpreter \<Rightarrow> id_t \<Rightarrow> branch_id_t \<Rightarrow> value_t \<Rightarrow> 'si crest \<Rightarrow> fatal + 'si crest" where
  "CrestBranch step i bid b g =
    (case (if pre_symbolic g \<noteq> 0 then call_SI step (Load i 0 types_CHAR b) g else Inr g) of
       Inl e \<Rightarrow> Inl e
     | Inr g1 \<Rightarrow> call_SI step (Branch i bid (b \<noteq> 0)) g1)"

definition CrestCall :: "'si interpreter \<Rightarrow> id_t \<Rightarrow> function_id_t \<Rightarrow> 'si crest \<Rightarrow> fatal + 'si crest" where
  "CrestCall step i fid g = call_SI step (Call i fid) g"

definition CrestReturn :: "'si interpreter \<Rightarrow> id_t \<Rightarrow> 'si crest \<Rightarrow> fatal + 'si crest" where
  "CrestReturn step i g = call_SI step (Return i) g"

definition CrestHandleReturn :: "'si interpreter \<Rightarrow> id_t \<Rightarrow> type_t \<Rightarrow> value_t \<Rightarrow> 'si crest \<Rightarrow> fatal + 'si crest" where
  "CrestHandleReturn step i ty val g =
    (if pre_symbolic g = 0 then call_SI step (HandleReturn i ty val) g else Inr g)"

text \<open>
  The symbolic input functions: \<^verbatim>\<open>pre_symbolic = 0\<close>, then \<^verbatim>\<open>SI->NewInput(ty, (addr_t)x)\<close>.
  The value that \<^verbatim>\<open>NewInput\<close> returns is stored through \<^verbatim>\<open>x\<close> into the program's own
  memory, which is no part of the runtime's state.
\<close>

definition CrestUChar :: "'si interpreter \<Rightarrow> addr_t \<Rightarrow> 'si crest \<Rightarrow> fatal + 'si crest" where
  "CrestUChar step x g = call_SI step (NewInput types_U_CHAR x) (g\<lparr>pre_symbolic := 0\<rparr>)"

definition CrestUShort :: "'si interpreter \<Rightarrow> addr_t \<Rightarrow> 'si crest \<Rightarrow> fatal + 'si crest" where
  "CrestUShort step x g = call_SI step (NewInput types_U_SHORT x) (g\<lparr>pre_symbolic := 0\<rparr>)"

definition CrestUInt :: "'si interpreter \<Rightarrow> addr_t \<Rightarrow> 'si crest \<Rightarrow> fatal + 'si crest" where
  "CrestUInt step x g = call_SI step (NewInput types_U_INT x) (g\<lparr>pre_symbolic := 0\<rparr>)"

definition CrestChar :: "'si interpreter \<Rightarrow> addr_t \<Rightarrow> 'si crest \<Rightarrow> fatal + 'si crest" where
  "CrestChar step x g = call_SI step (NewInput types_CHAR x) (g\<lparr>pre_symbolic := 0\<rparr>)"

definition CrestShort :: "'si interpreter \<Rightarrow> addr_t \<Rightarrow> 'si crest \<Rightarrow> fatal + 'si crest" where
  "CrestShort step x g = call_SI step (NewInput types_SHORT x) (g\<lparr>pre_symbolic := 0\<rparr>)"

definition CrestInt :: "'si interpreter \<Rightarrow> addr_t \<Rightarrow> 'si crest \<Rightarrow> fatal + 'si crest" where
  "CrestInt step x g = call_SI step (NewInput types_INT x) (g\<lparr>pre_symbolic := 0\<rparr>)"

subsection \<open>Runs of the instrumented program\<close>

text \<open>
  The instrumented program calls the runtime's functions one after the other, in
  program order. A run is the list of these calls; it ends at the first one that stops
  the process.
\<close>

datatype hook =
    RegGlobal id_t addr_t size_t
  | LoadHook id_t addr_t type_t value_t
  | DerefHook id_t addr_t type_t value_t
  | StoreHook id_t addr_t
  | WriteHook id_t addr_t
  | ClearStackHook id_t
  | Apply1 id_t int type_t value_t
  | Apply2 id_t int type_t value_t
  | PtrApply2 id_t int size_t value_t
  | BranchHook id_t branch_id_t value_t
  | CallHook id_t function_id_t
  | ReturnHook id_t
  | HandleReturnHook id_t type_t value_t
  | UCharHook addr_t | UShortHook addr_t | UIntHook addr_t
  | CharHook addr_t | ShortHook addr_t | IntHook addr_t

fun hook_call :: "crest_h \<Rightarrow> 'si interpreter \<Rightarrow> hook \<Rightarrow> 'si crest \<Rightarrow> fatal + 'si crest" where
  "hook_call h step (RegGlobal i addr n) g = CrestRegGlobal step i addr n g"
| "hook_call h step (LoadHook i addr ty val) g = CrestLoad step i addr ty val g"
| "hook_call h step (DerefHook i addr ty val) g = CrestDeref step i addr ty val g"
| "hook_call h step (StoreHook i addr) g = CrestStore step i addr g"
| "hook_call h step (WriteHook i addr) g = CrestWrite step i addr g"
| "hook_call h step (ClearStackHook i) g = CrestClearStack step i g"
| "hook_call h step (Apply1 i op ty val) g = CrestApply1 h step i op ty val g"
| "hook_call h step (Apply2 i op ty val) g = CrestApply2 h step i op ty val g"
| "hook_call h step (PtrApply2 i op n val) g = CrestPtrApply2 step i op n val g"
| "hook_call h step (BranchHook i bid b) g = CrestBranch step i bid b g"
| "hook_call h step (CallHook i fid) g = CrestCall step i fid g"
| "hook_call h step (ReturnHook i) g = CrestReturn step i g"
| "hook_call h step (HandleReturnHook i ty val) g = CrestHandleReturn step i ty val g"
| "hook_call h step (UCharHook x) g = CrestUChar step x g"
| "hook_call h step (UShortHook x) g = CrestUShort step x g"
| "hook_call h step (UIntHook x) g = CrestUInt step x g"
| "hook_call h step (CharHook x) g = CrestChar step x g"
| "hook_call h step (ShortHook x) g = CrestShort step x g"
| "hook_call h step (IntHook x) g = CrestInt step x g"

fun run :: "crest_h \<Rightarrow> 'si interpreter \<Rightarrow> hook list \<Rightarrow> 'si crest \<Rightarrow> fatal + 'si crest" where
  "run h step [] g = Inr g"
| "run h step (ev # evs) g =
    (case hook_call h step ev g of Inl e \<Rightarrow> Inl e | Inr g' \<Rightarrow> run h step evs g')"

text \<open>The symbolic input functions among the calls of a run.\<close>

fun is_input :: "hook \<Rightarrow> bool" where
  "is_input (UCharHook x) = True"
| "is_input (UShortHook x) = True"
| "is_input (UIntHook x) = True"
| "is_input (CharHook x) = True"
| "is_input (ShortHook x) = True"
| "is_input (IntHook x) = True"
| "is_input _ = False"

text \<open>
  An interpreter that only records the member calls it receives, in order, and never
  stops the process: it shows what the runtime asks of any interpreter.
\<close>

definition record_call :: "(si_call list) interpreter" where
  "record_call c calls = Inr (calls @ [c])"

text \<open>
  What the specification calls branch-identity coverage, the minimal instrumentation of
  the pre-symbolic regime, stated call by call: globals are registered, calls and
  returns are reported, a branch is reported after a concrete load of its value, and
  nothing else reaches the interpreter.
\<close>

fun coverage_calls :: "hook \<Rightarrow> si_call list" where
  "coverage_calls (RegGlobal i addr n) = [Alloc i addr n]"
| "coverage_calls (BranchHook i bid b) = [Load i 0 types_CHAR b, Branch i bid (b \<noteq> 0)]"
| "coverage_calls (CallHook i fid) = [Call i fid]"
| "coverage_calls (ReturnHook i) = [Return i]"
| "coverage_calls _ = []"

text \<open>The member calls that \<open>coverage_calls\<close> issues.\<close>

fun is_coverage_call :: "si_call \<Rightarrow> bool" where
  "is_coverage_call (Alloc i a n) = True"
| "is_coverage_call (Load i a ty v) = (a = 0 \<and> ty = types_CHAR)"
| "is_coverage_call (Branch i bid taken) = True"
| "is_coverage_call (Call i fid) = True"
| "is_coverage_call (Return i) = True"
| "is_coverage_call _ = False"

text \<open>Operator codes numbered in the order of the table's entries.\<close>

definition table_order :: crest_h where
  "table_order =
    \<lparr>CREST_ADD = 0, CREST_CONCRETE = 23, CREST_EQ = 13, CREST_S_GEQ = 22,
     CREST_NEGATE = 24, CREST_SIGNED_CAST = 28\<rparr>"

text \<open>
  The member calls \<open>cs\<close> performed one after the other on an interpreter state, up to
  the first one that stops the process.
\<close>

fun steps :: "'si interpreter \<Rightarrow> si_call list \<Rightarrow> 'si \<Rightarrow> fatal + 'si" where
  "steps step [] s = Inr s"
| "steps step (c # cs) s = (case step c s of Inl e \<Rightarrow> Inl e | Inr s' \<Rightarrow> steps step cs s')"

section \<open>The symbolic interpreter of the specification\<close>

text \<open>
  Modelled from the spec: the classes \<^verbatim>\<open>SymbolicExpr\<close> and its subclasses are not among
  the sources (only the header of the leaf class \<^verbatim>\<open>BasicExpr\<close> is). Section 3 of the
  specification: a leaf-variable has a numeric id, a declared width in bytes and a
  concrete sample value; a constant has a declared width and a value; unary and binary
  nodes have an operator, owned children, a result width and a concrete sample value; a
  compare node has an operator, two children and a boolean sample value. A pointer node
  is a binary node of pointer arithmetic, which \<^verbatim>\<open>ApplyBinPtrOp\<close> builds from a size
  instead of a type. \<open>PartialExpr\<close> is the node that a read of a partly symbolic region
  synthesises (section 4.2): the symbolic pieces with their byte offsets, the width of
  the region and the full concrete value. The id of a leaf is the numeric id of the
  specification, a natural number; how the code stores it is not modelled.
\<close>

datatype SymbolicExpr =
    LeafVariable nat nat value_t
  | ConstantExpr nat value_t
  | UnaryExpr ops SymbolicExpr nat value_t
  | BinaryExpr ops SymbolicExpr SymbolicExpr nat value_t
  | CompareExpr ops SymbolicExpr SymbolicExpr bool
  | PointerExpr ops SymbolicExpr SymbolicExpr size_t value_t
  | PartialExpr "(int \<times> SymbolicExpr) list" nat value_t

text \<open>
  Modelled from the spec: \<^verbatim>\<open>SymbolicMemory\<close> (only its header is among the sources): a
  mapping from an address to an owned expression, here with the width in bytes that the
  binding was written with. The header's \<^verbatim>\<open>hash_map\<close> is a finite list of bindings with
  at most one binding for an address.
\<close>

type_synonym SymbolicMemory = "(addr_t \<times> nat \<times> SymbolicExpr) list"

text \<open>
  Modelled from the spec: the size in bytes of a typed region. The table
  \<^verbatim>\<open>kSizeOfType\<close> is declared \<^verbatim>\<open>extern\<close> in \<^verbatim>\<open>base/basic_types.h\<close> and defined elsewhere:
  it is a parameter. The header of \<^verbatim>\<open>SymbolicMemory\<close>: when \<^verbatim>\<open>ty == types::STRUCT\<close>, then
  \<^verbatim>\<open>val\<close> is the size of the structure, in bytes.
\<close>

definition region_size :: "(type_t \<Rightarrow> nat) \<Rightarrow> type_t \<Rightarrow> value_t \<Rightarrow> nat" where
  "region_size kSizeOfType ty val = (if ty = types_STRUCT then unat val else kSizeOfType ty)"

text \<open>
  Modelled from the spec: whether a binding lies fully or partially inside the \<open>n\<close>
  bytes from address \<open>a\<close> (the definition of \<^verbatim>\<open>SymbolicMemory\<close> is not among the sources).
\<close>

definition overlaps :: "addr_t \<Rightarrow> nat \<Rightarrow> addr_t \<times> nat \<times> SymbolicExpr \<Rightarrow> bool" where
  "overlaps a n b =
    (case b of (b_addr, w, e) \<Rightarrow> unat b_addr < unat a + n \<and> unat a < unat b_addr + w)"

text \<open>
  Modelled from the spec: \<^verbatim>\<open>SymbolicMemory::read\<close>, whose definition is not among the
  sources. It never fails; it returns the stored expression if the whole region is
  symbolic and the stored width matches; if no symbolic binding exists, the result is
  purely concrete (no expression); otherwise it synthesises a node for the partially
  symbolic region that carries the concrete value supplied by the caller.
\<close>

definition mem_read :: "(type_t \<Rightarrow> nat) \<Rightarrow> SymbolicMemory \<Rightarrow> addr_t \<Rightarrow> type_t \<Rightarrow> value_t \<Rightarrow> SymbolicExpr option" where
  "mem_read kSizeOfType m a ty val =
    (let n = region_size kSizeOfType ty val;
         pieces = filter (overlaps a n) m
     in case map_of m a of
          Some (w, e) \<Rightarrow>
            if w = n then Some e
            else Some (PartialExpr (map (\<lambda>(b, w', e'). (uint b - uint a, e')) pieces) n val)
        | None \<Rightarrow>
            if pieces = [] then None
            else Some (PartialExpr (map (\<lambda>(b, w', e'). (uint b - uint a, e')) pieces) n val))"

text \<open>
  Modelled from the spec: \<^verbatim>\<open>SymbolicMemory::write\<close>, whose definition is not among the
  sources: it takes ownership of the expression and replaces any existing binding at
  that address.
\<close>

definition mem_write :: "SymbolicMemory \<Rightarrow> addr_t \<Rightarrow> nat \<Rightarrow> SymbolicExpr \<Rightarrow> SymbolicMemory" where
  "mem_write m a w e = (a, w, e) # filter (\<lambda>b. fst b \<noteq> a) m"

text \<open>
  Modelled from the spec: \<^verbatim>\<open>SymbolicMemory::concretize\<close>, whose definition is not among
  the sources: it removes every binding fully or partially inside the \<open>n\<close> bytes from
  the address.
\<close>

definition mem_concretize :: "SymbolicMemory \<Rightarrow> addr_t \<Rightarrow> nat \<Rightarrow> SymbolicMemory" where
  "mem_concretize m a n = filter (\<lambda>b. \<not> overlaps a n b) m"

text \<open>
  Modelled from the spec: the state of \<^verbatim>\<open>SymbolicInterpreter\<close>, whose header and
  definition are not among the sources (section 4.3): the evaluation stack of concrete
  values with their type and an optional expression (top first), the call stack of
  scopes, the registered regions, the symbolic memory, and the execution record being
  built (section 3): the input vector, the number of inputs issued so far, the branch
  identities recorded for coverage and the constraint sequence.
\<close>

record interp =
  stack :: "(type_t \<times> value_t \<times> SymbolicExpr option) list"
  scopes :: "function_id_t list"
  regions :: "(addr_t \<times> size_t) list"
  mem :: SymbolicMemory
  inputs :: "value_t list"
  num_inputs :: nat
  branches :: "branch_id_t list"
  constraints :: "(SymbolicExpr \<times> bool) list"

text \<open>
  Modelled from the spec: the constructor of \<^verbatim>\<open>SymbolicInterpreter\<close> (not among the
  sources): the execution record is created from the loaded input vector; nothing is
  pending, bound or recorded.
\<close>

definition new_interp :: "value_t list \<Rightarrow> interp" where
  "new_interp input =
    \<lparr>stack = [], scopes = [], regions = [], mem = [], inputs = input, num_inputs = 0,
     branches = [], constraints = []\<rparr>"

text \<open>
  Modelled from the spec: the wrapping of a concrete-only operand as a constant, when a
  node is built from it (\<^verbatim>\<open>SymbolicInterpreter\<close> is not among the sources).
\<close>

fun as_expr :: "(type_t \<Rightarrow> nat) \<Rightarrow> type_t \<times> value_t \<times> SymbolicExpr option \<Rightarrow> SymbolicExpr" where
  "as_expr kSizeOfType (ty, v, Some e) = e"
| "as_expr kSizeOfType (ty, v, None) = ConstantExpr (kSizeOfType ty) v"

text \<open>
  Modelled from the spec: \<^verbatim>\<open>SymbolicInterpreter::Alloc\<close> (not among the sources):
  registers a fresh memory region at the address, of the given size; it has no symbolic
  content yet.
\<close>

definition SI_Alloc :: "addr_t \<Rightarrow> size_t \<Rightarrow> interp \<Rightarrow> fatal + interp" where
  "SI_Alloc a n s = Inr (s\<lparr>regions := regions s @ [(a, n)]\<rparr>)"

text \<open>
  Modelled from the spec: \<^verbatim>\<open>SymbolicInterpreter::Load\<close> (not among the sources): pushes the
  result of the memory read as the new top evaluation value.
\<close>

definition SI_Load :: "(type_t \<Rightarrow> nat) \<Rightarrow> addr_t \<Rightarrow> type_t \<Rightarrow> value_t \<Rightarrow> interp \<Rightarrow> fatal + interp" where
  "SI_Load kSizeOfType a ty v s =
    Inr (s\<lparr>stack := (ty, v, mem_read kSizeOfType (mem s) a ty v) # stack s\<rparr>)"

text \<open>
  Modelled from the spec: \<^verbatim>\<open>SymbolicInterpreter::Deref\<close> (not among the sources): like
  \<^verbatim>\<open>Load\<close>, but the preceding top of the stack is consumed as the pointer; if the pointer
  carries symbolic content, the result is concretized. An empty stack is an
  operand-stack underflow, which is fatal.
\<close>

definition SI_Deref :: "(type_t \<Rightarrow> nat) \<Rightarrow> addr_t \<Rightarrow> type_t \<Rightarrow> value_t \<Rightarrow> interp \<Rightarrow> fatal + interp" where
  "SI_Deref kSizeOfType a ty v s =
    (case stack s of
       [] \<Rightarrow> Inl InvariantFailure
     | (pty, pv, pe) # rest \<Rightarrow>
         Inr (s\<lparr>stack :=
           (ty, v, (case pe of Some e \<Rightarrow> None | None \<Rightarrow> mem_read kSizeOfType (mem s) a ty v))
             # rest\<rparr>))"

text \<open>
  Modelled from the spec: \<^verbatim>\<open>SymbolicInterpreter::Store\<close> (not among the sources): consumes
  the top evaluation value and writes it into memory at the address. An empty
  expression is no valid argument of \<^verbatim>\<open>write\<close>: a concrete value clears the bindings of
  its bytes with \<^verbatim>\<open>concretize\<close>.
\<close>

definition SI_Store :: "(type_t \<Rightarrow> nat) \<Rightarrow> addr_t \<Rightarrow> interp \<Rightarrow> fatal + interp" where
  "SI_Store kSizeOfType a s =
    (case stack s of
       [] \<Rightarrow> Inl InvariantFailure
     | (ty, v, e) # rest \<Rightarrow>
         Inr (s\<lparr>stack := rest,
                mem := (case e of
                          Some x \<Rightarrow> mem_write (mem s) a (region_size kSizeOfType ty v) x
                        | None \<Rightarrow> mem_concretize (mem s) a (region_size kSizeOfType ty v))\<rparr>))"

text \<open>
  Modelled from the spec: \<^verbatim>\<open>SymbolicInterpreter::Write\<close> (not among the sources): the
  variant of \<^verbatim>\<open>Store\<close> for an address computed earlier in the statement, with the same
  transfer semantics.
\<close>

definition SI_Write :: "(type_t \<Rightarrow> nat) \<Rightarrow> addr_t \<Rightarrow> interp \<Rightarrow> fatal + interp" where
  "SI_Write kSizeOfType a s = SI_Store kSizeOfType a s"

text \<open>
  Modelled from the spec: \<^verbatim>\<open>SymbolicInterpreter::ClearStack\<close> (not among the sources):
  discards the expressions left on the evaluation stack.
\<close>

definition SI_ClearStack :: "interp \<Rightarrow> fatal + interp" where
  "SI_ClearStack s = Inr (s\<lparr>stack := []\<rparr>)"

text \<open>
  Modelled from the spec: \<^verbatim>\<open>SymbolicInterpreter::ApplyUnaryOp\<close> (not among the sources):
  pops one operand; if it carries an expression, the unary node is built and pushed,
  else a concrete result only.
\<close>

definition SI_ApplyUnaryOp :: "(type_t \<Rightarrow> nat) \<Rightarrow> ops \<Rightarrow> type_t \<Rightarrow> value_t \<Rightarrow> interp \<Rightarrow> fatal + interp" where
  "SI_ApplyUnaryOp kSizeOfType uop ty v s =
    (case stack s of
       [] \<Rightarrow> Inl InvariantFailure
     | (aty, av, ae) # rest \<Rightarrow>
         Inr (s\<lparr>stack :=
           (ty, v, map_option (\<lambda>e. UnaryExpr uop e (kSizeOfType ty) v) ae) # rest\<rparr>))"

text \<open>
  Modelled from the spec: \<^verbatim>\<open>SymbolicInterpreter::ApplyBinaryOp\<close> (not among the sources):
  pops two operands; if any carries an expression, the binary node is built (a concrete
  operand wrapped as a constant) and pushed; if both are concrete, or the operator is
  the sentinel \<^verbatim>\<open>CONCRETE\<close>, a concrete result only.
\<close>

definition SI_ApplyBinaryOp :: "(type_t \<Rightarrow> nat) \<Rightarrow> ops \<Rightarrow> type_t \<Rightarrow> value_t \<Rightarrow> interp \<Rightarrow> fatal + interp" where
  "SI_ApplyBinaryOp kSizeOfType bop ty v s =
    (case stack s of
       b # a # rest \<Rightarrow>
         Inr (s\<lparr>stack :=
           (ty, v,
            if bop = ops_CONCRETE \<or> (snd (snd a) = None \<and> snd (snd b) = None) then None
            else Some (BinaryExpr bop (as_expr kSizeOfType a) (as_expr kSizeOfType b)
                         (kSizeOfType ty) v)) # rest\<rparr>)
     | _ \<Rightarrow> Inl InvariantFailure)"

text \<open>
  Modelled from the spec: \<^verbatim>\<open>SymbolicInterpreter::ApplyCompareOp\<close> (not among the sources):
  as \<^verbatim>\<open>ApplyBinaryOp\<close>, with a compare node and its boolean sample value.
\<close>

definition SI_ApplyCompareOp :: "(type_t \<Rightarrow> nat) \<Rightarrow> ops \<Rightarrow> type_t \<Rightarrow> value_t \<Rightarrow> interp \<Rightarrow> fatal + interp" where
  "SI_ApplyCompareOp kSizeOfType cop ty v s =
    (case stack s of
       b # a # rest \<Rightarrow>
         Inr (s\<lparr>stack :=
           (ty, v,
            if snd (snd a) = None \<and> snd (snd b) = None then None
            else Some (CompareExpr cop (as_expr kSizeOfType a) (as_expr kSizeOfType b) (v \<noteq> 0)))
             # rest\<rparr>)
     | _ \<Rightarrow> Inl InvariantFailure)"

text \<open>
  Modelled from the spec: \<^verbatim>\<open>SymbolicInterpreter::ApplyBinPtrOp\<close> (not among the sources):
  as \<^verbatim>\<open>ApplyBinaryOp\<close>, for pointer arithmetic with the given size; the result is a
  pointer-sized value.
\<close>

definition SI_ApplyBinPtrOp :: "(type_t \<Rightarrow> nat) \<Rightarrow> ops \<Rightarrow> size_t \<Rightarrow> value_t \<Rightarrow> interp \<Rightarrow> fatal + interp" where
  "SI_ApplyBinPtrOp kSizeOfType pop n v s =
    (case stack s of
       b # a # rest \<Rightarrow>
         Inr (s\<lparr>stack :=
           (types_U_LONG, v,
            if snd (snd a) = None \<and> snd (snd b) = None then None
            else Some (PointerExpr pop (as_expr kSizeOfType a) (as_expr kSizeOfType b) n v))
             # rest\<rparr>)
     | _ \<Rightarrow> Inl InvariantFailure)"

text \<open>
  Modelled from the spec: \<^verbatim>\<open>SymbolicInterpreter::Branch\<close> (not among the sources): pops the
  controlling evaluation value; if it carries an expression, the pair of the expression
  and the taken direction is appended to the constraint sequence; if it is purely
  concrete, the branch identity is still recorded, with no constraint. Precondition:
  exactly one evaluation value is pending; violating this is a fatal invariant failure.
\<close>

definition SI_Branch :: "branch_id_t \<Rightarrow> bool \<Rightarrow> interp \<Rightarrow> fatal + interp" where
  "SI_Branch bid taken s =
    (case stack s of
       [(ty, v, e)] \<Rightarrow>
         Inr (s\<lparr>stack := [],
                branches := branches s @ [bid],
                constraints := (case e of
                                  Some x \<Rightarrow> constraints s @ [(x, taken)]
                                | None \<Rightarrow> constraints s)\<rparr>)
     | _ \<Rightarrow> Inl InvariantFailure)"

text \<open>
  Modelled from the spec: \<^verbatim>\<open>SymbolicInterpreter::Call\<close> (not among the sources): pushes a
  variable scope and clears the remnants of the evaluation stack.
\<close>

definition SI_Call :: "function_id_t \<Rightarrow> interp \<Rightarrow> fatal + interp" where
  "SI_Call fid s = Inr (s\<lparr>scopes := fid # scopes s, stack := []\<rparr>)"

text \<open>
  Modelled from the spec: \<^verbatim>\<open>SymbolicInterpreter::Return\<close> (not among the sources): pops a
  variable scope; a return with no scope to pop is a malformed call sequence, which is
  fatal.
\<close>

definition SI_Return :: "interp \<Rightarrow> fatal + interp" where
  "SI_Return s =
    (case scopes s of [] \<Rightarrow> Inl InvariantFailure | f # fs \<Rightarrow> Inr (s\<lparr>scopes := fs\<rparr>))"

text \<open>
  Modelled from the spec: \<^verbatim>\<open>SymbolicInterpreter::HandleReturn\<close> (not among the sources):
  attaches the callee's returned evaluation value onto the caller's evaluation context:
  the value left pending by the callee, if any, with the given type and concrete value,
  or else a concrete value.
\<close>

definition SI_HandleReturn :: "type_t \<Rightarrow> value_t \<Rightarrow> interp \<Rightarrow> fatal + interp" where
  "SI_HandleReturn ty v s =
    (case stack s of
       [] \<Rightarrow> Inr (s\<lparr>stack := [(ty, v, None)]\<rparr>)
     | (rty, rv, re) # rest \<Rightarrow> Inr (s\<lparr>stack := (ty, v, re) # rest\<rparr>))"

text \<open>
  Modelled from the spec: \<^verbatim>\<open>SymbolicInterpreter::NewInput\<close> (not among the sources):
  consumes the next unread slot of the input vector, binds a fresh leaf-variable,
  whose identifier is the count of inputs issued so far, to the address in memory; an
  input vector shorter than the number of calls is a fatal invariant failure. The
  concrete value that the call returns to the runtime is the sample value of the leaf.
\<close>

definition SI_NewInput :: "(type_t \<Rightarrow> nat) \<Rightarrow> type_t \<Rightarrow> addr_t \<Rightarrow> interp \<Rightarrow> fatal + interp" where
  "SI_NewInput kSizeOfType ty a s =
    (if num_inputs s < length (inputs s) then
       Inr (s\<lparr>mem := mem_write (mem s) a (kSizeOfType ty)
                       (LeafVariable (num_inputs s) (kSizeOfType ty)
                          (inputs s ! num_inputs s)),
              num_inputs := Suc (num_inputs s)\<rparr>)
     else Inl InvariantFailure)"

text \<open>
  Modelled from the spec: the interpreter of the specification as one function of the
  member call (the class is not among the sources); the statement identifier of a call
  plays no role.
\<close>

fun interp_step :: "(type_t \<Rightarrow> nat) \<Rightarrow> interp interpreter" where
  "interp_step k (Alloc i a n) s = SI_Alloc a n s"
| "interp_step k (Load i a ty v) s = SI_Load k a ty v s"
| "interp_step k (Deref i a ty v) s = SI_Deref k a ty v s"
| "interp_step k (Store i a) s = SI_Store k a s"
| "interp_step k (Write i a) s = SI_Write k a s"
| "interp_step k (ClearStack i) s = SI_ClearStack s"
| "interp_step k (ApplyUnaryOp i uop ty v) s = SI_ApplyUnaryOp k uop ty v s"
| "interp_step k (ApplyCompareOp i cop ty v) s = SI_ApplyCompareOp k cop ty v s"
| "interp_step k (ApplyBinaryOp i bop ty v) s = SI_ApplyBinaryOp k bop ty v s"
| "interp_step k (ApplyBinPtrOp i pop n v) s = SI_ApplyBinPtrOp k pop n v s"
| "interp_step k (Branch i bid taken) s = SI_Branch bid taken s"
| "interp_step k (Call i fid) s = SI_Call fid s"
| "interp_step k (Return i) s = SI_Return s"
| "interp_step k (HandleReturn i ty v) s = SI_HandleReturn ty v s"
| "interp_step k (NewInput ty a) s = SI_NewInput k ty a s"

text \<open>
  The sizes of the C types on an LP64 platform, for concrete runs.
\<close>

definition lp64_sizes :: "type_t \<Rightarrow> nat" where
  "lp64_sizes ty =
    (if ty = types_U_CHAR \<or> ty = types_CHAR \<or> ty = types_BOOLEAN then 1
     else if ty = types_U_SHORT \<or> ty = types_SHORT then 2
     else if ty = types_U_INT \<or> ty = types_INT then 4
     else 8)"

text \<open>
  A state of the interpreter of the specification without symbolic content: no binding
  in memory and no expression on the evaluation stack.
\<close>

definition no_symbolic :: "interp \<Rightarrow> bool" where
  "no_symbolic s = (mem s = [] \<and> list_all (\<lambda>x. snd (snd x) = None) (stack s))"




section \<open>The exit hook\<close>

text \<open>
  \<^verbatim>\<open>__CrestAtExit\<close> serializes the execution into \<^verbatim>\<open>buff\<close> and writes it to the file
  \<^verbatim>\<open>szd_execution\<close> through a \<^verbatim>\<open>std::ofstream\<close>. What the file system does is a parameter:
  whether the file can be opened, whether the stream accepts the bytes of \<^verbatim>\<open>write\<close>
  (a stream buffers what it accepts), whether \<^verbatim>\<open>close\<close>, which flushes the buffer,
  succeeds, and how many bytes have reached the file when one of them failed.
\<close>

record io_env =
  open_ok :: bool
  write_ok :: bool
  close_ok :: bool
  flushed :: nat

datatype exit_kind = Aborted | Returned

text \<open>
  The stream operations of \<^verbatim>\<open>__CrestAtExit\<close>, in its order, on the serialized bytes
  \<open>buff\<close>: the constructor opens the file and sets the stream's fail state if it cannot;
  \<^verbatim>\<open>out.write\<close> does nothing on a failed stream and sets the fail state if the bytes are
  refused; \<^verbatim>\<open>assert(!out.fail())\<close> aborts; \<^verbatim>\<open>out.close()\<close> flushes, and its failure sets a
  fail state that nothing reads. The result is how the hook ends and the contents of
  the file it leaves (\<open>None\<close>: no file was opened). The diagnostic printing of the
  constraints that precedes the write is left out.
\<close>

definition CrestAtExit :: "io_env \<Rightarrow> 8 word list \<Rightarrow> exit_kind \<times> 8 word list option" where
  "CrestAtExit env buff =
    (let fail_after_open = \<not> open_ok env;
         fail_after_write = (fail_after_open \<or> \<not> write_ok env)
     in if fail_after_write then
          (Aborted, if open_ok env then Some (take (flushed env) buff) else None)
        else if close_ok env then (Returned, Some buff)
        else (Returned, Some (take (flushed env) buff)))"

section \<open>Runs of the runtime\<close>

lemmas hook_defs =
  CrestRegGlobal_def CrestLoad_def CrestDeref_def CrestStore_def CrestWrite_def
  CrestClearStack_def CrestApply1_def CrestApply2_def CrestPtrApply2_def CrestBranch_def
  CrestCall_def CrestReturn_def CrestHandleReturn_def CrestUChar_def CrestUShort_def
  CrestUInt_def CrestChar_def CrestShort_def CrestInt_def

lemma call_SI_pre_symbolic:
  "call_SI step c g = Inr g' \<Longrightarrow> pre_symbolic g' = pre_symbolic g"
  by (auto simp: call_SI_def split: sum.splits)

lemma hook_call_pre_symbolic:
  "hook_call h step ev g = Inr g' \<Longrightarrow>
   pre_symbolic g' = (if is_input ev then 0 else pre_symbolic g)"
  by (cases ev)
     (auto simp: hook_defs dest!: call_SI_pre_symbolic split: if_splits sum.splits option.splits)

lemma run_pre_symbolic:
  "run h step evs g = Inr g' \<Longrightarrow>
   pre_symbolic g' = (if list_ex is_input evs then 0 else pre_symbolic g)"
proof (induction evs arbitrary: g)
  case Nil
  then show ?case by simp
next
  case (Cons ev evs)
  from Cons.prems obtain g1 where 1: "hook_call h step ev g = Inr g1" and 2: "run h step evs g1 = Inr g'"
    by (auto split: sum.splits)
  from Cons.IH[OF 2] hook_call_pre_symbolic[OF 1] show ?case by simp
qed

lemma steps_append:
  "steps step (cs @ ds) s = (case steps step cs s of Inl e \<Rightarrow> Inl e | Inr s' \<Rightarrow> steps step ds s')"
  by (induction cs arbitrary: s) (auto split: sum.splits)

lemma hook_call_coverage:
  "hook_call h step ev g = Inr g' \<Longrightarrow> pre_symbolic g \<noteq> 0 \<Longrightarrow> \<not> is_input ev \<Longrightarrow>
   steps step (coverage_calls ev) (SI g) = Inr (SI g')"
  by (cases ev)
     (auto simp: hook_defs call_SI_def split: if_splits sum.splits option.splits)

lemma run_coverage:
  "run h step evs g = Inr g' \<Longrightarrow> pre_symbolic g' \<noteq> 0 \<Longrightarrow>
   steps step (concat (map coverage_calls evs)) (SI g) = Inr (SI g')"
proof (induction evs arbitrary: g)
  case Nil
  then show ?case by simp
next
  case (Cons ev evs)
  from Cons.prems obtain g1 where 1: "hook_call h step ev g = Inr g1" and 2: "run h step evs g1 = Inr g'"
    by (auto split: sum.splits)
  from run_pre_symbolic[OF 2] Cons.prems(2) have g1: "pre_symbolic g1 \<noteq> 0"
    by (auto split: if_splits)
  with hook_call_pre_symbolic[OF 1] have ev: "\<not> is_input ev" and g: "pre_symbolic g \<noteq> 0"
    by (auto split: if_splits)
  from hook_call_coverage[OF 1 g ev] Cons.IH[OF 2 Cons.prems(2)] show ?case
    by (simp add: steps_append)
qed

lemmas SI_defs = SI_Alloc_def SI_Load_def SI_Deref_def SI_Store_def SI_Write_def SI_ClearStack_def
  SI_ApplyUnaryOp_def SI_ApplyBinaryOp_def SI_ApplyCompareOp_def SI_ApplyBinPtrOp_def
  SI_Branch_def SI_Call_def SI_Return_def SI_HandleReturn_def SI_NewInput_def

section \<open>The pre-symbolic latch\<close>

lemma coverage_calls_are_coverage: "list_all is_coverage_call (coverage_calls ev)"
  by (cases ev) simp_all

lemma steps_coverage_invariant:
  fixes step :: "'si interpreter" and concrete :: "'si \<Rightarrow> bool" and recorded :: "'si \<Rightarrow> 'c"
  assumes contract: "\<And>c s s'. is_coverage_call c \<Longrightarrow> concrete s \<Longrightarrow> step c s = Inr s' \<Longrightarrow>
                       concrete s' \<and> recorded s' = recorded s"
  shows "list_all is_coverage_call cs \<Longrightarrow> concrete s \<Longrightarrow> steps step cs s = Inr s' \<Longrightarrow>
         concrete s' \<and> recorded s' = recorded s"
proof (induction cs arbitrary: s)
  case Nil
  then show ?case by simp
next
  case (Cons c cs)
  from Cons.prems(3) obtain s1 where 1: "step c s = Inr s1" and 2: "steps step cs s1 = Inr s'"
    by (auto split: sum.splits)
  from Cons.prems(1) have c: "is_coverage_call c" and cs: "list_all is_coverage_call cs"
    by simp_all
  from contract[OF c Cons.prems(2) 1] have s1: "concrete s1" "recorded s1 = recorded s"
    by simp_all
  from Cons.IH[OF cs s1(1) 2] s1(2) show ?case by simp
qed

text \<open>
  Claim C5. The pre-symbolic regime is a one-way latch. \<^verbatim>\<open>__CrestInit\<close> sets it; in a run
  that follows, it is still set exactly if no symbolic input function has been called,
  whatever else was called; once it is cleared, no call of the runtime sets it again.
  While it is set, the interpreter has received the calls of branch-identity coverage
  and no other: for each branch a concrete load of its value and the branch itself, the
  registration of globals, calls and returns. This holds for every interpreter. Hence
  no constraint is recorded while it is set, for every interpreter whose coverage calls
  keep a state without symbolic content (\<open>concrete\<close>) such a state and leave what is
  recorded of constraints (\<open>recorded\<close>) as it is.
\<close>

theorem pre_symbolic_latch:
  assumes "CrestInit new_SI input atexit_ok = Inr g0"
      and "run h step evs g0 = Inr g"
  shows "pre_symbolic g0 = 1
    \<and> pre_symbolic g = (if list_ex is_input evs then 0 else 1)
    \<and> (pre_symbolic g \<noteq> 0 \<longrightarrow>
         steps step (concat (map coverage_calls evs)) (SI g0) = Inr (SI g))
    \<and> (pre_symbolic g \<noteq> 0 \<longrightarrow> concrete (SI g0) \<longrightarrow>
         (\<forall>c s s'. is_coverage_call c \<longrightarrow> concrete s \<longrightarrow> step c s = Inr s' \<longrightarrow>
                    concrete s' \<and> recorded s' = recorded s) \<longrightarrow>
         concrete (SI g) \<and> recorded (SI g) = recorded (SI g0))
    \<and> (\<forall>evs' g'. pre_symbolic g = 0 \<longrightarrow> run h step evs' g = Inr g' \<longrightarrow> pre_symbolic g' = 0)"
proof -
  from assms(1) have 0: "pre_symbolic g0 = 1"
    by (auto simp: CrestInit_def Let_def split: if_splits)
  have 1: "pre_symbolic g = (if list_ex is_input evs then 0 else 1)"
    using 0 run_pre_symbolic[OF assms(2)] by simp
  have 2: "steps step (concat (map coverage_calls evs)) (SI g0) = Inr (SI g)"
    if "pre_symbolic g \<noteq> 0"
    using run_coverage[OF assms(2) that] .
  have 3: "concrete (SI g) \<and> recorded (SI g) = recorded (SI g0)"
    if l: "pre_symbolic g \<noteq> 0" and c0: "concrete (SI g0)"
      and contract: "\<forall>c s s'. is_coverage_call c \<longrightarrow> concrete s \<longrightarrow> step c s = Inr s' \<longrightarrow>
                    concrete s' \<and> recorded s' = recorded s"
  proof (rule steps_coverage_invariant[where step = step and concrete = concrete
        and recorded = recorded, OF _ _ c0 2[OF l]])
    show "list_all is_coverage_call (concat (map coverage_calls evs))"
      by (induction evs) (simp_all add: coverage_calls_are_coverage)
    show "concrete s' \<and> recorded s' = recorded s"
      if "is_coverage_call c" "concrete s" "step c s = Inr s'" for c s s'
      using contract that by blast
  qed
  have 4: "\<forall>evs' g'. pre_symbolic g = 0 \<longrightarrow> run h step evs' g = Inr g' \<longrightarrow> pre_symbolic g' = 0"
    by (auto dest: run_pre_symbolic)
  from 0 1 2 3 4 show ?thesis by blast
qed

text \<open>
  The interpreter of the specification is such an interpreter.
\<close>

lemma interp_step_coverage_concrete:
  "is_coverage_call c \<Longrightarrow> no_symbolic s \<Longrightarrow> interp_step k c s = Inr s' \<Longrightarrow>
   no_symbolic s' \<and> constraints s' = constraints s"
  by (cases c)
     (auto simp: no_symbolic_def SI_defs mem_read_def Let_def split: list.splits option.splits)

text \<open>
  Witness for C5. With the interpreter that records its calls: a run without a symbolic
  input keeps the latch and issues the coverage calls only (the \<^verbatim>\<open>Load\<close> hook is
  skipped); a run with \<^verbatim>\<open>__CrestInt\<close> clears it, after which the \<^verbatim>\<open>Load\<close> hook reaches the
  interpreter. With the interpreter of the specification: the run without a symbolic
  input records the branch identity 7 and no constraint.
\<close>

theorem pre_symbolic_latch_witness:
  "CrestInit (\<lambda>input. []) [5] True = Inr \<lparr>SI = ([] :: si_call list), pre_symbolic = 1\<rparr>
   \<and> run table_order record_call
         [RegGlobal 1 4096 4, CallHook 2 0, BranchHook 3 7 1, LoadHook 4 4096 types_INT 9,
          ReturnHook 5]
         \<lparr>SI = [], pre_symbolic = 1\<rparr>
       = Inr \<lparr>SI = [Alloc 1 4096 4, Call 2 0, Load 3 0 types_CHAR 1, Branch 3 7 True, Return 5],
              pre_symbolic = 1\<rparr>
   \<and> steps record_call
         (concat (map coverage_calls
            [RegGlobal 1 4096 4, CallHook 2 0, BranchHook 3 7 1, LoadHook 4 4096 types_INT 9,
             ReturnHook 5])) []
       = Inr [Alloc 1 4096 4, Call 2 0, Load 3 0 types_CHAR 1, Branch 3 7 True, Return 5]
   \<and> run table_order record_call
         [BranchHook 3 7 1, IntHook 4096, LoadHook 4 4096 types_INT 9]
         \<lparr>SI = [], pre_symbolic = 1\<rparr>
       = Inr \<lparr>SI = [Load 3 0 types_CHAR 1, Branch 3 7 True, NewInput types_INT 4096,
                    Load 4 4096 types_INT 9],
              pre_symbolic = 0\<rparr>
   \<and> (case run table_order (interp_step lp64_sizes)
             [RegGlobal 1 4096 4, CallHook 2 0, BranchHook 3 7 1, LoadHook 4 4096 types_INT 9,
              ReturnHook 5]
             \<lparr>SI = new_interp [5], pre_symbolic = 1\<rparr> of
        Inl e \<Rightarrow> False
      | Inr g \<Rightarrow> pre_symbolic g = 1 \<and> branches (SI g) = [7] \<and> constraints (SI g) = [])"
proof -
  have i: "CrestInit (\<lambda>input. []) [5] True = Inr \<lparr>SI = ([] :: si_call list), pre_symbolic = 1\<rparr>"
    by (simp add: CrestInit_def)
  have r1: "run table_order record_call
         [RegGlobal 1 4096 4, CallHook 2 0, BranchHook 3 7 1, LoadHook 4 4096 types_INT 9,
          ReturnHook 5]
         \<lparr>SI = [], pre_symbolic = 1\<rparr>
       = Inr \<lparr>SI = [Alloc 1 4096 4, Call 2 0, Load 3 0 types_CHAR 1, Branch 3 7 True, Return 5],
              pre_symbolic = 1\<rparr>"
    by (simp add: hook_defs call_SI_def record_call_def)
  have r2: "run table_order record_call
         [BranchHook 3 7 1, IntHook 4096, LoadHook 4 4096 types_INT 9]
         \<lparr>SI = [], pre_symbolic = 1\<rparr>
       = Inr \<lparr>SI = [Load 3 0 types_CHAR 1, Branch 3 7 True, NewInput types_INT 4096,
                    Load 4 4096 types_INT 9],
              pre_symbolic = 0\<rparr>"
    by (simp add: hook_defs call_SI_def record_call_def)
  let ?G = "\<lparr>SI = \<lparr>stack = [], scopes = [], regions = [(4096, 4)], mem = [],
                    inputs = [5], num_inputs = 0, branches = [7], constraints = []\<rparr>,
              pre_symbolic = 1\<rparr>"
  have i3: "CrestInit new_interp [5] True = Inr \<lparr>SI = new_interp [5], pre_symbolic = 1\<rparr>"
    by (simp add: CrestInit_def)
  have r3: "run table_order (interp_step lp64_sizes)
           [RegGlobal 1 4096 4, CallHook 2 0, BranchHook 3 7 1, LoadHook 4 4096 types_INT 9,
            ReturnHook 5]
           \<lparr>SI = new_interp [5], pre_symbolic = 1\<rparr> = Inr ?G"
    by (simp add: hook_defs call_SI_def new_interp_def SI_defs mem_read_def)
  have c3: "no_symbolic (new_interp [5])"
    by (simp add: no_symbolic_def new_interp_def)
  from pre_symbolic_latch[where concrete = no_symbolic and recorded = constraints, OF i3 r3]
    c3 interp_step_coverage_concrete
  have 3: "constraints (SI ?G) = constraints (new_interp [5])"
    by simp
  from pre_symbolic_latch[where concrete = "\<lambda>s. True" and recorded = "\<lambda>s. ()", OF i r1]
  have 1: "steps record_call
         (concat (map coverage_calls
            [RegGlobal 1 4096 4, CallHook 2 0, BranchHook 3 7 1, LoadHook 4 4096 types_INT 9,
             ReturnHook 5])) []
       = Inr [Alloc 1 4096 4, Call 2 0, Load 3 0 types_CHAR 1, Branch 3 7 True, Return 5]"
    by simp
  from pre_symbolic_latch[where concrete = "\<lambda>s. True" and recorded = "\<lambda>s. ()", OF i r2]
  have 2: "pre_symbolic \<lparr>SI = [Load 3 0 types_CHAR 1, Branch 3 7 True, NewInput types_INT 4096,
                    Load 4 4096 types_INT 9], pre_symbolic = 0\<rparr> = 0"
    by simp
  from i r1 1 r2 3 show ?thesis
    unfolding r3 by (simp add: new_interp_def)
qed

section \<open>The branch hook in the pre-symbolic regime\<close>

lemma coverage_calls_pending:
  fixes step :: "'si interpreter" and pending :: "'si \<Rightarrow> nat"
  assumes load: "\<And>i a ty v s s'. step (Load i a ty v) s = Inr s' \<Longrightarrow> pending s' = Suc (pending s)"
      and branch: "\<And>i bid t s s'. step (Branch i bid t) s = Inr s' \<Longrightarrow> pending s = 1 \<and> pending s' = 0"
      and alloc: "\<And>i a n s s'. step (Alloc i a n) s = Inr s' \<Longrightarrow> pending s' = pending s"
      and call: "\<And>i f s s'. step (Call i f) s = Inr s' \<Longrightarrow> pending s' = 0"
      and ret: "\<And>i s s'. step (Return i) s = Inr s' \<Longrightarrow> pending s' = pending s"
      and "steps step (coverage_calls ev) s = Inr s'" and "pending s = 0"
  shows "pending s' = 0"
proof (cases ev)
  case (RegGlobal i a n)
  with assms(6,7) alloc show ?thesis by (auto split: sum.splits)
next
  case (BranchHook i bid b)
  with assms(6) branch show ?thesis by (auto split: sum.splits)
next
  case (CallHook i f)
  with assms(6) call show ?thesis by (auto split: sum.splits)
next
  case (ReturnHook i)
  with assms(6,7) ret show ?thesis by (auto split: sum.splits)
qed (use assms(6,7) in auto)

lemma run_pending:
  fixes step :: "'si interpreter" and pending :: "'si \<Rightarrow> nat"
  assumes load: "\<And>i a ty v s s'. step (Load i a ty v) s = Inr s' \<Longrightarrow> pending s' = Suc (pending s)"
      and branch: "\<And>i bid t s s'. step (Branch i bid t) s = Inr s' \<Longrightarrow> pending s = 1 \<and> pending s' = 0"
      and alloc: "\<And>i a n s s'. step (Alloc i a n) s = Inr s' \<Longrightarrow> pending s' = pending s"
      and call: "\<And>i f s s'. step (Call i f) s = Inr s' \<Longrightarrow> pending s' = 0"
      and ret: "\<And>i s s'. step (Return i) s = Inr s' \<Longrightarrow> pending s' = pending s"
  shows "run h step evs g = Inr g' \<Longrightarrow> pre_symbolic g' \<noteq> 0 \<Longrightarrow> pending (SI g) = 0 \<Longrightarrow>
         pending (SI g') = 0"
proof (induction evs arbitrary: g)
  case Nil
  then show ?case by simp
next
  case (Cons ev evs)
  from Cons.prems obtain g1 where 1: "hook_call h step ev g = Inr g1" and 2: "run h step evs g1 = Inr g'"
    by (auto split: sum.splits)
  from run_pre_symbolic[OF 2] Cons.prems(2) have g1: "pre_symbolic g1 \<noteq> 0"
    by (auto split: if_splits)
  with hook_call_pre_symbolic[OF 1] have ev: "\<not> is_input ev" and g: "pre_symbolic g \<noteq> 0"
    by (auto split: if_splits)
  have "pending (SI g1) = 0"
    by (rule coverage_calls_pending[where step = step and pending = pending,
          OF load branch alloc call ret hook_call_coverage[OF 1 g ev] Cons.prems(3)])
  with Cons.IH[OF 2 Cons.prems(2)] show ?case .
qed

text \<open>
  Claim C10. The interpreter's stack discipline is taken from its contract: a \<^verbatim>\<open>Load\<close>
  that returns has pushed one evaluation value, a \<^verbatim>\<open>Branch\<close> returns only from exactly
  one pending value and pops it, \<^verbatim>\<open>Call\<close> clears the stack, \<^verbatim>\<open>Alloc\<close> and \<^verbatim>\<open>Return\<close> leave
  it, and a fresh interpreter has nothing pending (\<open>pending\<close> counts the pending values
  of a state). Then, for every interpreter with this contract, in every state that a run
  reaches from \<^verbatim>\<open>__CrestInit\<close> with the latch still set: nothing is pending; the branch
  hook first performs \<^verbatim>\<open>Load(id, 0, types::CHAR, b)\<close> and then \<^verbatim>\<open>Branch\<close> on the state that
  the load returns, in which exactly one value is pending; and the hooks for \<^verbatim>\<open>Load\<close>,
  \<^verbatim>\<open>Deref\<close>, \<^verbatim>\<open>Store\<close>, \<^verbatim>\<open>Write\<close>, \<^verbatim>\<open>ClearStack\<close>, \<^verbatim>\<open>HandleReturn\<close> and the three apply hooks
  leave the interpreter untouched (the two that assert the operator's range may stop
  on that assertion).
\<close>

theorem presymbolic_branch_precondition:
  fixes step :: "'si interpreter" and pending :: "'si \<Rightarrow> nat"
  assumes load: "\<And>i a ty v s s'. step (Load i a ty v) s = Inr s' \<Longrightarrow> pending s' = Suc (pending s)"
      and branch: "\<And>i bid t s s'. step (Branch i bid t) s = Inr s' \<Longrightarrow> pending s = 1 \<and> pending s' = 0"
      and alloc: "\<And>i a n s s'. step (Alloc i a n) s = Inr s' \<Longrightarrow> pending s' = pending s"
      and call: "\<And>i f s s'. step (Call i f) s = Inr s' \<Longrightarrow> pending s' = 0"
      and ret: "\<And>i s s'. step (Return i) s = Inr s' \<Longrightarrow> pending s' = pending s"
      and fresh: "pending (new_SI input) = 0"
      and init: "CrestInit new_SI input atexit_ok = Inr g0"
      and run: "run h step evs g0 = Inr g"
      and latch: "pre_symbolic g \<noteq> 0"
  shows "pending (SI g) = 0
    \<and> CrestBranch step i bid b g =
        (case step (Load i 0 types_CHAR b) (SI g) of
           Inl e \<Rightarrow> Inl e
         | Inr s1 \<Rightarrow> call_SI step (Branch i bid (b \<noteq> 0)) (g\<lparr>SI := s1\<rparr>))
    \<and> (\<forall>s1. step (Load i 0 types_CHAR b) (SI g) = Inr s1 \<longrightarrow> pending s1 = 1)
    \<and> CrestLoad step i1 a1 ty1 v1 g = Inr g
    \<and> CrestDeref step i2 a2 ty2 v2 g = Inr g
    \<and> CrestStore step i3 a3 g = Inr g
    \<and> CrestWrite step i4 a4 g = Inr g
    \<and> CrestClearStack step i5 g = Inr g
    \<and> CrestHandleReturn step i6 ty6 v6 g = Inr g
    \<and> CrestApply1 h step i7 op7 ty7 v7 g \<in> {Inr g, Inl AssertionFailed}
    \<and> CrestApply2 h step i8 op8 ty8 v8 g \<in> {Inr g, Inl AssertionFailed}
    \<and> CrestPtrApply2 step i9 op9 n9 v9 g = Inr g"
proof -
  from init have g0: "SI g0 = new_SI input"
    by (auto simp: CrestInit_def Let_def split: if_splits)
  have p0: "pending (SI g0) = 0"
    using g0 fresh by simp
  have 0: "pending (SI g) = 0"
    by (rule run_pending[where step = step and pending = pending,
          OF load branch alloc call ret run latch p0])
  have 1: "\<forall>s1. step (Load i 0 types_CHAR b) (SI g) = Inr s1 \<longrightarrow> pending s1 = 1"
    using load 0 by fastforce
  show ?thesis
    using 0 1 latch by (simp add: hook_defs call_SI_def split: sum.splits)
qed

text \<open>
  The interpreter of the specification meets the contract, with the length of its
  evaluation stack as the number of pending values.
\<close>

lemma interp_step_Load_pushes:
  "interp_step k (Load i a ty v) s = Inr s' \<Longrightarrow> length (stack s') = Suc (length (stack s))"
  by (auto simp: SI_Load_def)

lemma interp_step_Branch_pops:
  "interp_step k (Branch i bid t) s = Inr s' \<Longrightarrow> length (stack s) = 1 \<and> length (stack s') = 0"
  by (auto simp: SI_Branch_def split: list.splits)

lemma interp_step_Alloc_keeps:
  "interp_step k (Alloc i a n) s = Inr s' \<Longrightarrow> length (stack s') = length (stack s)"
  by (auto simp: SI_Alloc_def)

lemma interp_step_Call_clears:
  "interp_step k (Call i f) s = Inr s' \<Longrightarrow> length (stack s') = 0"
  by (auto simp: SI_Call_def)

lemma interp_step_Return_keeps:
  "interp_step k (Return i) s = Inr s' \<Longrightarrow> length (stack s') = length (stack s)"
  by (auto simp: SI_Return_def split: list.splits)

text \<open>
  Witness for C10, with the interpreter of the specification: after a run of five
  pre-symbolic calls nothing is pending, the branch hook succeeds and records the branch
  identity 8, and the \<^verbatim>\<open>Load\<close> and \<^verbatim>\<open>Store\<close> hooks change nothing.
\<close>

theorem presymbolic_branch_precondition_witness:
  "(case run table_order (interp_step lp64_sizes)
           [RegGlobal 1 4096 4, CallHook 2 0, BranchHook 3 7 1, LoadHook 4 4096 types_INT 9,
            ReturnHook 5]
           \<lparr>SI = new_interp [5], pre_symbolic = 1\<rparr> of
      Inl e \<Rightarrow> False
    | Inr g \<Rightarrow>
        pre_symbolic g = 1
        \<and> length (stack (SI g)) = 0
        \<and> CrestBranch (interp_step lp64_sizes) 6 8 0 g
            = Inr (g\<lparr>SI := (SI g)\<lparr>branches := [7, 8]\<rparr>\<rparr>)
        \<and> CrestLoad (interp_step lp64_sizes) 4 4096 types_INT 9 g = Inr g
        \<and> CrestStore (interp_step lp64_sizes) 4 4096 g = Inr g)"
proof -
  let ?G = "\<lparr>SI = \<lparr>stack = [], scopes = [], regions = [(4096, 4)], mem = [],
                    inputs = [5], num_inputs = 0, branches = [7], constraints = []\<rparr>,
              pre_symbolic = 1\<rparr>"
  have i: "CrestInit new_interp [5] True = Inr \<lparr>SI = new_interp [5], pre_symbolic = 1\<rparr>"
    by (simp add: CrestInit_def)
  have r: "run table_order (interp_step lp64_sizes)
           [RegGlobal 1 4096 4, CallHook 2 0, BranchHook 3 7 1, LoadHook 4 4096 types_INT 9,
            ReturnHook 5]
           \<lparr>SI = new_interp [5], pre_symbolic = 1\<rparr> = Inr ?G"
    by (simp add: hook_defs call_SI_def new_interp_def SI_defs mem_read_def)
  have f: "length (stack (new_interp [5])) = 0"
    by (simp add: new_interp_def)
  have l: "pre_symbolic ?G \<noteq> 0" by simp
  from presymbolic_branch_precondition[where step = "interp_step lp64_sizes"
      and pending = "\<lambda>s. length (stack s)" and new_SI = new_interp and i = 6 and bid = 8 and b = 0,
      OF interp_step_Load_pushes interp_step_Branch_pops interp_step_Alloc_keeps
         interp_step_Call_clears interp_step_Return_keeps f i r l]
  show ?thesis
    unfolding r
    by (simp add: call_SI_def SI_defs mem_read_def)
qed

section \<open>The branch operation of the interpreter\<close>

text \<open>
  Claim C1, for the interpreter of the specification. \<^verbatim>\<open>Branch\<close> with other than exactly
  one pending evaluation value is a fatal invariant failure. With exactly one, it pops
  it; if the value carries an expression, the pair of the expression and the taken
  direction is appended at the end of the constraint sequence, and the branch identity
  is recorded; if the value is concrete, the branch identity is recorded and the
  constraint sequence is unchanged. Outside the pre-symbolic regime the branch hook of
  the runtime is this operation, with \<open>b \<noteq> 0\<close> as the taken direction. In the
  pre-symbolic regime, with nothing pending and nothing bound in memory, the value that
  the branch pops is the concrete load of the hook: the branch identity is recorded,
  and no constraint.
\<close>

theorem Branch_pops_the_pending_value:
  "(length (stack s) \<noteq> 1 \<longrightarrow> SI_Branch bid taken s = Inl InvariantFailure)
   \<and> (\<forall>ty v e. stack s = [(ty, v, Some e)] \<longrightarrow>
        SI_Branch bid taken s =
          Inr (s\<lparr>stack := [], branches := branches s @ [bid],
                 constraints := constraints s @ [(e, taken)]\<rparr>))
   \<and> (\<forall>ty v. stack s = [(ty, v, None)] \<longrightarrow>
        SI_Branch bid taken s = Inr (s\<lparr>stack := [], branches := branches s @ [bid]\<rparr>))
   \<and> (pre_symbolic g = 0 \<longrightarrow>
        CrestBranch (interp_step k) i bid b g =
          (case SI_Branch bid (b \<noteq> 0) (SI g) of
             Inl e \<Rightarrow> Inl e
           | Inr s' \<Rightarrow> Inr (g\<lparr>SI := s'\<rparr>)))
   \<and> (pre_symbolic g \<noteq> 0 \<longrightarrow> stack (SI g) = [] \<longrightarrow> mem (SI g) = [] \<longrightarrow>
        CrestBranch (interp_step k) i bid b g =
          Inr (g\<lparr>SI := (SI g)\<lparr>stack := [], branches := branches (SI g) @ [bid]\<rparr>\<rparr>))"
  by (auto simp: SI_Branch_def SI_Load_def mem_read_def CrestBranch_def call_SI_def
           split: list.splits option.splits)

text \<open>
  Witness for C1: a symbolic value, a concrete value, an empty stack, and the branch hook
  in either regime.
\<close>

theorem Branch_pops_the_pending_value_witness:
  "SI_Branch 7 True ((new_interp [5])\<lparr>stack := [(types_INT, 1, Some (LeafVariable 0 4 5))]\<rparr>)
     = Inr ((new_interp [5])\<lparr>branches := [7], constraints := [(LeafVariable 0 4 5, True)]\<rparr>)
   \<and> SI_Branch 7 False ((new_interp [5])\<lparr>stack := [(types_CHAR, 0, None)]\<rparr>)
     = Inr ((new_interp [5])\<lparr>branches := [7]\<rparr>)
   \<and> SI_Branch 7 True (new_interp [5]) = Inl InvariantFailure
   \<and> CrestBranch (interp_step lp64_sizes) 3 7 1
        \<lparr>SI = (new_interp [5])\<lparr>stack := [(types_INT, 1, Some (LeafVariable 0 4 5))]\<rparr>,
         pre_symbolic = 0\<rparr>
     = Inr \<lparr>SI = (new_interp [5])\<lparr>branches := [7],
                                  constraints := [(LeafVariable 0 4 5, True)]\<rparr>,
            pre_symbolic = 0\<rparr>
   \<and> CrestBranch (interp_step lp64_sizes) 3 7 1 \<lparr>SI = new_interp [5], pre_symbolic = 1\<rparr>
     = Inr \<lparr>SI = (new_interp [5])\<lparr>branches := [7]\<rparr>, pre_symbolic = 1\<rparr>"
  using
    Branch_pops_the_pending_value[of
      "(new_interp [5])\<lparr>stack := [(types_INT, 1, Some (LeafVariable 0 4 5))]\<rparr>" 7 True
      "\<lparr>SI = (new_interp [5])\<lparr>stack := [(types_INT, 1, Some (LeafVariable 0 4 5))]\<rparr>,
         pre_symbolic = 0\<rparr>" lp64_sizes 3 1]
    Branch_pops_the_pending_value[of
      "(new_interp [5])\<lparr>stack := [(types_CHAR, 0, None)]\<rparr>" 7 False]
    Branch_pops_the_pending_value[of "new_interp [5]" 7 True
      "\<lparr>SI = new_interp [5], pre_symbolic = 1\<rparr>" lp64_sizes 3 1]
  by (simp add: new_interp_def)

section \<open>The identifiers of the symbolic inputs\<close>






section \<open>The exit hook and failures of the file system\<close>

text \<open>
  When the file cannot be opened or the stream refuses the bytes, the assertion aborts
  the process.
\<close>

lemma exit_hook_aborts:
  "\<not> open_ok env \<or> \<not> write_ok env \<Longrightarrow> fst (CrestAtExit env buff) = Aborted"
  by (auto simp: CrestAtExit_def)

text \<open>
  Claim C9 at a failing input: the stream accepts the four bytes into its buffer, so the
  assertion after \<^verbatim>\<open>write\<close> passes, and the flush in \<^verbatim>\<open>close\<close> fails with no byte written.
  The hook returns as after a successful run and leaves an empty file.
\<close>

theorem exit_hook_returns_after_failed_close:
  "CrestAtExit \<lparr>open_ok = True, write_ok = True, close_ok = False, flushed = 0\<rparr> [1, 2, 3, 4]
     = (Returned, Some [])"
  by (simp add: CrestAtExit_def)

end
